theory Spec2Isabelle
  imports Main "HOL-Library.Multiset" "HOL-Library.AList"
begin

section \<open>Shared types of \<^verbatim>\<open>dmvr/builders.py\<close>\<close>

text \<open>
  Field values (tensors) are opaque: a type variable \<open>'v\<close>. The values kept in a
  \<^verbatim>\<open>ProcessorState\<close> are \<open>'s\<close>, and \<open>'x\<close> is whatever a function supplied by the
  caller raises. \<^verbatim>\<open>FeaturesDict = Dict[str, tf.Tensor]\<close> and
  \<^verbatim>\<open>ProcessorState = Dict[str, Any]\<close> are maps.
\<close>

type_synonym 'v FeaturesDict = "string \<rightharpoonup> 'v"
type_synonym 's ProcessorState = "string \<rightharpoonup> 's"

text \<open>
  Exceptions: the \<^verbatim>\<open>ValueError\<close> of the builders with its message, the
  \<^verbatim>\<open>KeyError\<close> of a dictionary subscript with the missing key (a string, or the pair
  of a string and a flag that keys the sequence parser's dictionaries), and an exception
  raised inside a function supplied by the caller.
\<close>

datatype key = Name string | Pair string bool

datatype 'x exn = ValueError string | KeyError key | Raised 'x

text \<open>
  Python tests optional strings by truth value (\<^verbatim>\<open>if fd.feature_name:\<close>,
  \<^verbatim>\<open>if add_before_fn_name:\<close>, \<^verbatim>\<open>output_name or feature_name\<close>): \<^verbatim>\<open>None\<close> and the
  empty string are both false.
\<close>

fun truthy :: "string option \<Rightarrow> string option" where
  "truthy None = None"
| "truthy (Some n) = (if n = [] then None else Some n)"

text \<open>\<^verbatim>\<open>str(n)\<close> of a non-negative integer, as the f-string \<^verbatim>\<open>f'fn_{self._fn_idx}'\<close> prints it.\<close>

definition digit :: "nat \<Rightarrow> char" where
  "digit d = ''0123456789'' ! d"

fun str :: "nat \<Rightarrow> string" where
  "str n = (if n < 10 then [digit n] else str (n div 10) @ [digit (n mod 10)])"

declare str.simps [simp del]

section \<open>The processor builder \<^verbatim>\<open>_Builder\<close>\<close>

text \<open>
  A Python callable is duck-typed: \<^verbatim>\<open>process_fn\<close> calls \<^verbatim>\<open>fd.fn\<close> in one of four shapes,
  chosen by the flags of the description and never by the function. A callable is
  therefore modelled by what it does in each shape (the four members of the
  \<^verbatim>\<open>Union\<close> in the signature of \<^verbatim>\<open>add_fn\<close>). A stateful function receives the state
  dictionary by reference and may mutate it: it returns the new contents (when it raises,
  what it did to the dictionary is lost with the invocation). Whatever the function
  raises, also for a call shape it does not support, is an \<open>'x\<close>.
\<close>

record ('v, 's, 'x) callable =
  FeatureProcessor :: "'v \<Rightarrow> 'x + 'v"
  StatefulFeatureProcessor :: "'v \<Rightarrow> 's ProcessorState \<Rightarrow> 'x + 'v \<times> 's ProcessorState"
  Processor :: "'v FeaturesDict \<Rightarrow> 'x + 'v FeaturesDict"
  StatefulProcessor ::
    "'v FeaturesDict \<Rightarrow> 's ProcessorState \<Rightarrow> 'x + 'v FeaturesDict \<times> 's ProcessorState"

text \<open>\<^verbatim>\<open>_FunctionDescription = namedtuple('_FunctionDescription', ('fn_name', 'fn', 'feature_name', 'stateful'))\<close>\<close>

record ('v, 's, 'x) FunctionDescription =
  fn_name :: string
  fn :: "('v, 's, 'x) callable"
  feature_name :: "string option"
  stateful :: bool

text \<open>
  The builder mutates a list object in place (\<^verbatim>\<open>insert\<close>, \<^verbatim>\<open>append\<close>, item assignment)
  and rebinds \<^verbatim>\<open>self._fns_list\<close> to a new list elsewhere (\<^verbatim>\<open>reset\<close>, \<^verbatim>\<open>remove_fn\<close>),
  and \<^verbatim>\<open>build\<close> hands a tuple to a closure. To keep that sharing visible, objects live in
  a store: \<open>list_objs\<close> holds the list and tuple objects, \<open>dict_objs\<close> the state
  dictionaries, \<open>next_addr\<close> is the next unused address. \<open>fns_list\<close> and \<open>fn_idx\<close>
  are the attributes \<^verbatim>\<open>self._fns_list\<close> (a reference) and \<^verbatim>\<open>self._fn_idx\<close> of the builder.
\<close>

type_synonym addr = nat

record ('v, 's, 'x) world =
  list_objs :: "addr \<Rightarrow> ('v, 's, 'x) FunctionDescription list"
  dict_objs :: "addr \<Rightarrow> 's ProcessorState"
  next_addr :: addr
  fns_list :: addr
  fn_idx :: nat

text \<open>\<^verbatim>\<open>__init__\<close>: a new empty list, the counter at 0.\<close>

definition init :: "('v, 's, 'x) world \<Rightarrow> ('v, 's, 'x) world" where
  "init s = s\<lparr>list_objs := (list_objs s)(next_addr s := []),
              fns_list := next_addr s,
              fn_idx := 0,
              next_addr := Suc (next_addr s)\<rparr>"

text \<open>\<^verbatim>\<open>list.insert(i, x)\<close> for \<open>0 \<le> i\<close>: before position \<open>i\<close>, at the end when \<open>i\<close> is past it.\<close>

definition list_insert :: "nat \<Rightarrow> 'a \<Rightarrow> 'a list \<Rightarrow> 'a list" where
  "list_insert i x xs = take i xs @ x # drop i xs"

text \<open>\<^verbatim>\<open>[i for i, fd in enumerate(fns) if fd.fn_name == name]\<close>\<close>

definition indices_of :: "string \<Rightarrow> ('v, 's, 'x) FunctionDescription list \<Rightarrow> nat list" where
  "indices_of name fns = [i \<leftarrow> [0..<length fns]. fn_name (fns ! i) = name]"

definition add_fn ::
  "('v, 's, 'x) callable \<Rightarrow> string option \<Rightarrow> string option \<Rightarrow> bool \<Rightarrow> string option \<Rightarrow>
   ('v, 's, 'x) world \<Rightarrow> ('x exn + unit) \<times> ('v, 's, 'x) world" where
  "add_fn f feature_name' fn_name' stateful' add_before_fn_name s =
     (let (name, s1) = (case fn_name' of
                          None \<Rightarrow> (''fn_'' @ str (fn_idx s), s\<lparr>fn_idx := fn_idx s + 1\<rparr>)
                        | Some n \<Rightarrow> (n, s));
          fns = list_objs s1 (fns_list s1)
      in if name \<in> set (map fn_name fns)
         then (Inl (ValueError (''Given `fn_name` '' @ name @ '' is not unique.'')), s1)
         else
           let new_fd = \<lparr>fn_name = name, fn = f, feature_name = feature_name',
                         stateful = stateful'\<rparr>
           in case truthy add_before_fn_name of
                Some before_name \<Rightarrow>
                  (case indices_of before_name fns of
                     [] \<Rightarrow> (Inl (ValueError ''Given `add_before_idx` [] does not exist.''), s1)
                   | add_before_idx # _ \<Rightarrow>
                       (Inr (), s1\<lparr>list_objs := (list_objs s1)
                                     (fns_list s1 := list_insert add_before_idx new_fd fns)\<rparr>))
              | None \<Rightarrow>
                  (Inr (), s1\<lparr>list_objs := (list_objs s1)(fns_list s1 := fns @ [new_fd])\<rparr>))"

text \<open>\<^verbatim>\<open>reset\<close> binds the attribute to a new empty list; the old list object is left as it is.\<close>

definition reset :: "('v, 's, 'x) world \<Rightarrow> ('x exn + unit) \<times> ('v, 's, 'x) world" where
  "reset s = (Inr (), s\<lparr>list_objs := (list_objs s)(next_addr s := []),
                         fns_list := next_addr s,
                         next_addr := Suc (next_addr s)\<rparr>)"

text \<open>\<^verbatim>\<open>remove_fn\<close> builds a new list by comprehension and binds the attribute to it.\<close>

definition remove_fn :: "string \<Rightarrow> ('v, 's, 'x) world \<Rightarrow> ('x exn + unit) \<times> ('v, 's, 'x) world" where
  "remove_fn name s =
     (Inr (), s\<lparr>list_objs := (list_objs s)
                  (next_addr s := [fd \<leftarrow> list_objs s (fns_list s). fn_name fd \<noteq> name]),
                fns_list := next_addr s,
                next_addr := Suc (next_addr s)\<rparr>)"

definition replace_fn ::
  "string \<Rightarrow> ('v, 's, 'x) callable \<Rightarrow> ('v, 's, 'x) world \<Rightarrow>
   ('x exn + unit) \<times> ('v, 's, 'x) world" where
  "replace_fn name f s =
     (let fns = list_objs s (fns_list s)
      in case indices_of name fns of
           [] \<Rightarrow> (Inl (ValueError (''Given `fn_name` '' @ name @ '' does not exist.'')), s)
         | idx # _ \<Rightarrow>
             (let fd = fns ! idx;
                  new_fd = \<lparr>fn_name = fn_name fd, fn = f, feature_name = feature_name fd,
                            stateful = stateful fd\<rparr>
              in (Inr (), s\<lparr>list_objs := (list_objs s)(fns_list s := fns[idx := new_fd])\<rparr>)))"

text \<open>
  \<^verbatim>\<open>get_summary\<close> returns \<^verbatim>\<open>copy.copy(self._fns_list)\<close>: a list of its own with the same
  descriptions, here the contents as a value.
\<close>

definition get_summary :: "('v, 's, 'x) world \<Rightarrow> ('v, 's, 'x) FunctionDescription list" where
  "get_summary s = list_objs s (fns_list s)"

text \<open>
  \<^verbatim>\<open>build\<close>: \<^verbatim>\<open>fns_list = tuple(self._fns_list)\<close> makes a new tuple object with the current
  descriptions, and the closure \<^verbatim>\<open>process_fn\<close> that is returned refers to that tuple. The
  compiled function is represented by the address of its tuple.
\<close>

definition build :: "('v, 's, 'x) world \<Rightarrow> addr \<times> ('v, 's, 'x) world" where
  "build s =
     (next_addr s,
      s\<lparr>list_objs := (list_objs s)(next_addr s := list_objs s (fns_list s)),
        next_addr := Suc (next_addr s)\<rparr>)"

text \<open>
  The loop of \<^verbatim>\<open>process_fn\<close>. \<open>state\<close> is the address of the state dictionary: a
  stateful function reads it and leaves it updated. In each subscript assignment the
  right-hand side is evaluated first, so a missing \<^verbatim>\<open>output[fd.feature_name]\<close> raises
  \<^verbatim>\<open>KeyError\<close> before the function is called.
\<close>

fun run_fns ::
  "addr \<Rightarrow> ('v, 's, 'x) FunctionDescription list \<Rightarrow> 'v FeaturesDict \<Rightarrow> ('v, 's, 'x) world \<Rightarrow>
   ('x exn + 'v FeaturesDict) \<times> ('v, 's, 'x) world" where
  "run_fns state [] output s = (Inr output, s)"
| "run_fns state (fd # fds) output s =
     (case truthy (feature_name fd) of
        Some name \<Rightarrow>
          (case output name of
             None \<Rightarrow> (Inl (KeyError (Name name)), s)
           | Some v \<Rightarrow>
               if stateful fd
               then (case StatefulFeatureProcessor (fn fd) v (dict_objs s state) of
                       Inl x \<Rightarrow> (Inl (Raised x), s)
                     | Inr (v', state') \<Rightarrow>
                         run_fns state fds (output(name \<mapsto> v'))
                           (s\<lparr>dict_objs := (dict_objs s)(state := state')\<rparr>))
               else (case FeatureProcessor (fn fd) v of
                       Inl x \<Rightarrow> (Inl (Raised x), s)
                     | Inr v' \<Rightarrow> run_fns state fds (output(name \<mapsto> v')) s))
      | None \<Rightarrow>
          if stateful fd
          then (case StatefulProcessor (fn fd) output (dict_objs s state) of
                  Inl x \<Rightarrow> (Inl (Raised x), s)
                | Inr (output', state') \<Rightarrow>
                    run_fns state fds output' (s\<lparr>dict_objs := (dict_objs s)(state := state')\<rparr>))
          else (case Processor (fn fd) output of
                  Inl x \<Rightarrow> (Inl (Raised x), s)
                | Inr output' \<Rightarrow> run_fns state fds output' s))"

text \<open>
  \<^verbatim>\<open>process_fn\<close>, the closure over the tuple at \<open>fns_list'\<close>:
  \<^verbatim>\<open>output = copy.copy(features_dict)\<close> (the caller's dictionary is a value here, so the
  copy is the value itself), \<^verbatim>\<open>state = {}\<close> (a new dictionary object), then the loop.
\<close>

definition process_fn ::
  "addr \<Rightarrow> 'v FeaturesDict \<Rightarrow> ('v, 's, 'x) world \<Rightarrow>
   ('x exn + 'v FeaturesDict) \<times> ('v, 's, 'x) world" where
  "process_fn fns_list' features_dict s =
     (let output = features_dict;
          state = next_addr s;
          s1 = s\<lparr>dict_objs := (dict_objs s)(state := Map.empty),
                 next_addr := Suc (next_addr s)\<rparr>
      in run_fns state (list_objs s1 fns_list') output s1)"

text \<open>
  A client of the builder: the mutating calls it may make, and a sequence of them run one
  after the other, an exception of one call being caught by the client.
\<close>

datatype ('v, 's, 'x) call =
    AddFn "('v, 's, 'x) callable" "string option" "string option" bool "string option"
  | Reset
  | RemoveFn string
  | ReplaceFn string "('v, 's, 'x) callable"

fun do_call ::
  "('v, 's, 'x) call \<Rightarrow> ('v, 's, 'x) world \<Rightarrow> ('x exn + unit) \<times> ('v, 's, 'x) world" where
  "do_call (AddFn f feature_name' fn_name' stateful' add_before_fn_name) s =
     add_fn f feature_name' fn_name' stateful' add_before_fn_name s"
| "do_call Reset s = reset s"
| "do_call (RemoveFn name) s = remove_fn name s"
| "do_call (ReplaceFn name f) s = replace_fn name f s"

definition do_calls :: "('v, 's, 'x) call list \<Rightarrow> ('v, 's, 'x) world \<Rightarrow> ('v, 's, 'x) world" where
  "do_calls cs s = fold (\<lambda>c s'. snd (do_call c s')) cs s"

text \<open>
  The tuple at \<open>t\<close> and the builder's list are two allocated objects of the store.
\<close>

definition separate :: "addr \<Rightarrow> ('v, 's, 'x) world \<Rightarrow> bool" where
  "separate t s \<longleftrightarrow> fns_list s < next_addr s \<and> t < next_addr s \<and> t \<noteq> fns_list s"

section \<open>The parser builders\<close>

text \<open>
  A Python dictionary keeps its keys in insertion order and the parsers iterate over
  theirs, so \<^verbatim>\<open>_features\<close> and \<^verbatim>\<open>_name_dict\<close> are association lists: \<open>map_of\<close> is the
  subscript, \<open>AList.update\<close> the subscript assignment (in place for a key that is there,
  at the end for a new one). Feature types are opaque values \<open>'t\<close> compared with \<open>\<noteq>\<close>.
  The key type \<open>'k\<close> is \<open>string\<close> for \<^verbatim>\<open>ExampleParserBuilder\<close> and \<open>string \<times> bool\<close> for
  \<^verbatim>\<open>SequenceExampleParserBuilder\<close>.
\<close>

record ('k, 't) ParserBuilder =
  features :: "('k \<times> 't) list"
  name_dict :: "('k \<times> string list) list"

definition ParserBuilder_init :: "('k, 't) ParserBuilder" where
  "ParserBuilder_init = \<lparr>features = [], name_dict = []\<rparr>"

text \<open>\<^verbatim>\<open>output_name or feature_name\<close>\<close>

definition or_name :: "string option \<Rightarrow> string \<Rightarrow> string" where
  "or_name output_name' feature_name' =
     (case truthy output_name' of Some n \<Rightarrow> n | None \<Rightarrow> feature_name')"

text \<open>\<^verbatim>\<open>for name_list in self._name_dict.values(): if output_name in name_list: raise\<close>\<close>

definition name_taken :: "string \<Rightarrow> ('k \<times> string list) list \<Rightarrow> bool" where
  "name_taken output_name nd = list_ex (\<lambda>name_list. output_name \<in> set name_list) (map snd nd)"

text \<open>
  \<^verbatim>\<open>if key not in self._name_dict: self._name_dict[key] = []\<close> followed by
  \<^verbatim>\<open>self._name_dict[key].append(output_name)\<close>
\<close>

definition append_name :: "'k \<Rightarrow> string \<Rightarrow> ('k \<times> string list) list \<Rightarrow> ('k \<times> string list) list" where
  "append_name k output_name nd =
     (case map_of nd k of
        None \<Rightarrow> AList.update k [output_name] (AList.update k [] nd)
      | Some names \<Rightarrow> AList.update k (names @ [output_name]) nd)"

definition Example_parse_feature ::
  "string \<Rightarrow> 't \<Rightarrow> string option \<Rightarrow> (string, 't) ParserBuilder \<Rightarrow>
   ('x exn + unit) \<times> (string, 't) ParserBuilder" where
  "Example_parse_feature feature_name' feature_type output_name' b =
     (let output_name = or_name output_name' feature_name'
      in if name_taken output_name (name_dict b)
         then (Inl (ValueError (''Given output_name '' @ output_name @ '' is not unique.'')), b)
         else
           (case map_of (features b) feature_name' of
              None \<Rightarrow>
                (Inr (), b\<lparr>features := AList.update feature_name' feature_type (features b),
                           name_dict := append_name feature_name' output_name (name_dict b)\<rparr>)
            | Some t \<Rightarrow>
                if t \<noteq> feature_type
                then (Inl (ValueError (''Different `feature_type` given for the same feature ''
                                        @ feature_name' @ ''.'')), b)
                else (Inr (), b\<lparr>name_dict :=
                                  append_name feature_name' output_name (name_dict b)\<rparr>)))"

text \<open>\<^verbatim>\<open>str(is_context)\<close> in the message of the sequence parser.\<close>

definition str_bool :: "bool \<Rightarrow> string" where
  "str_bool c = (if c then ''True'' else ''False'')"

definition SequenceExample_parse_feature ::
  "string \<Rightarrow> 't \<Rightarrow> string option \<Rightarrow> bool \<Rightarrow> (string \<times> bool, 't) ParserBuilder \<Rightarrow>
   ('x exn + unit) \<times> (string \<times> bool, 't) ParserBuilder" where
  "SequenceExample_parse_feature feature_name' feature_type output_name' is_context b =
     (let output_name = or_name output_name' feature_name'
      in if name_taken output_name (name_dict b)
         then (Inl (ValueError (''Given `output_name` '' @ output_name @ '' is not unique.'')), b)
         else
           (let feature_key = (feature_name', is_context)
            in case map_of (features b) feature_key of
                 None \<Rightarrow>
                   (Inr (), b\<lparr>features := AList.update feature_key feature_type (features b),
                              name_dict := append_name feature_key output_name (name_dict b)\<rparr>)
               | Some t \<Rightarrow>
                   if t \<noteq> feature_type
                   then (Inl (ValueError (''Different `feature_type` given for the same feature ''
                                           @ feature_name' @ '' with `is_context` ''
                                           @ str_bool is_context @ ''.'')), b)
                   else (Inr (), b\<lparr>name_dict :=
                                     append_name feature_key output_name (name_dict b)\<rparr>)))"





text \<open>
  All output names of a name dictionary, in the order of its keys; the schema of a
  builder is well formed when its dictionaries have each key once, no output name
  occurs twice, and every feature has a list of output names. An empty builder is well
  formed and \<^verbatim>\<open>parse_feature\<close> keeps it so (\<open>schema_ok_init\<close>,
  \<open>schema_ok_Example_parse_feature\<close>, \<open>schema_ok_SequenceExample_parse_feature\<close>).
\<close>

definition output_names :: "('k \<times> string list) list \<Rightarrow> string list" where
  "output_names nd = concat (map snd nd)"

definition schema_ok :: "('k, 't) ParserBuilder \<Rightarrow> bool" where
  "schema_ok b \<longleftrightarrow>
     distinct (map fst (name_dict b)) \<and>
     distinct (output_names (name_dict b)) \<and>
     set (map fst (features b)) \<subseteq> set (map fst (name_dict b))"


section \<open>The filter builder\<close>

datatype Phase = READ | PARSE | SAMPLE | DECODE | PREPROCESS | POSTPROCESS

text \<open>
  \<^verbatim>\<open>FilterFn = Callable[[FeaturesDict], tf.Tensor]\<close>, a boolean scalar or an exception.
  \<^verbatim>\<open>__init__\<close> gives every phase an empty list, so \<^verbatim>\<open>_filter_fns\<close> is a total function
  on \<open>Phase\<close>.
\<close>

type_synonym ('v, 'x) FilterFn = "'v FeaturesDict \<Rightarrow> 'x + bool"

record ('v, 'x) FilterBuilder =
  filter_fns :: "Phase \<Rightarrow> ('v, 'x) FilterFn list"

definition FilterBuilder_init :: "('v, 'x) FilterBuilder" where
  "FilterBuilder_init = \<lparr>filter_fns = (\<lambda>phase. [])\<rparr>"

definition add_filter_fn ::
  "('v, 'x) FilterFn \<Rightarrow> Phase \<Rightarrow> ('v, 'x) FilterBuilder \<Rightarrow> ('v, 'x) FilterBuilder" where
  "add_filter_fn filter_fn' after_phase b =
     b\<lparr>filter_fns := (filter_fns b)(after_phase := filter_fns b after_phase @ [filter_fn'])\<rparr>"

text \<open>
  The loop of the closure \<^verbatim>\<open>filter_fn\<close>: \<^verbatim>\<open>keep = tf.logical_and(keep, fn(features_dict))\<close>
  calls every function (there is no short cut) and stops only at an exception.
\<close>

fun filter_loop :: "('v, 'x) FilterFn list \<Rightarrow> 'v FeaturesDict \<Rightarrow> bool \<Rightarrow> 'x exn + bool" where
  "filter_loop [] features_dict keep = Inr keep"
| "filter_loop (f # fs) features_dict keep =
     (case f features_dict of
        Inl x \<Rightarrow> Inl (Raised x)
      | Inr b \<Rightarrow> filter_loop fs features_dict (keep \<and> b))"

text \<open>
  \<^verbatim>\<open>FilterBuilder.build\<close>: the closure over a copy of the phase's list, starting from
  \<^verbatim>\<open>tf.constant(True)\<close>.
\<close>

definition FilterBuilder_build ::
  "Phase \<Rightarrow> ('v, 'x) FilterBuilder \<Rightarrow> 'v FeaturesDict \<Rightarrow> 'x exn + bool" where
  "FilterBuilder_build after_phase b =
     (let filter_fns' = filter_fns b after_phase
      in (\<lambda>features_dict. filter_loop filter_fns' features_dict True))"

section \<open>Clients of the builder\<close>



definition appends ::
  "(('v, 's, 'x) callable \<times> string option \<times> string option \<times> bool) list \<Rightarrow>
   ('v, 's, 'x) call list" where
  "appends args = map (\<lambda>(f, feature_name', fn_name', stateful').
                          AddFn f feature_name' fn_name' stateful' None) args"

text \<open>A client of the filter builder: registrations made one after the other.\<close>

definition add_filter_fns ::
  "(('v, 'x) FilterFn \<times> Phase) list \<Rightarrow> ('v, 'x) FilterBuilder \<Rightarrow> ('v, 'x) FilterBuilder" where
  "add_filter_fns regs b = fold (\<lambda>(f, after_phase) b'. add_filter_fn f after_phase b') regs b"

section \<open>Concrete inputs\<close>

text \<open>A store with nothing allocated, and a builder made in it.\<close>

definition world0 :: "(int, int, string) world" where
  "world0 = \<lparr>list_objs = (\<lambda>a. []), dict_objs = (\<lambda>a. Map.empty), next_addr = 0,
             fns_list = 0, fn_idx = 0\<rparr>"

definition builder0 :: "(int, int, string) world" where
  "builder0 = init world0"

text \<open>
  Functions on one integer field: \<open>double\<close> and \<open>add_one\<close> ignore the state, and in
  the whole-dictionary shapes they return the dictionary as it is.
\<close>

definition per_value :: "(int \<Rightarrow> int) \<Rightarrow> (int, int, string) callable" where
  "per_value g =
     \<lparr>FeatureProcessor = (\<lambda>v. Inr (g v)),
      StatefulFeatureProcessor = (\<lambda>v st. Inr (g v, st)),
      Processor = (\<lambda>d. Inr d),
      StatefulProcessor = (\<lambda>d st. Inr (d, st))\<rparr>"

definition double :: "(int, int, string) callable" where
  "double = per_value (\<lambda>v. 2 * v)"

definition add_one :: "(int, int, string) callable" where
  "add_one = per_value (\<lambda>v. v + 1)"


text \<open>
  A builder with the stateful function \<open>A\<close> on the field \<open>n\<close>, and a builder with the
  functions \<open>A\<close>, \<open>B\<close>, \<open>C\<close> added in that order.
\<close>

definition builderA :: "(int, int, string) world" where
  "builderA = snd (add_fn double (Some ''n'') (Some ''A'') True None builder0)"

definition builderABC :: "(int, int, string) world" where
  "builderABC = do_calls (appends [(double, Some ''n'', Some ''A'', False),
                                   (add_one, Some ''n'', Some ''B'', False),
                                   (double, None, Some ''C'', True)]) builder0"

text \<open>Filters: a constant one, and one that needs the field \<open>n\<close> and raises without it.\<close>

definition always :: "bool \<Rightarrow> (int, string) FilterFn" where
  "always v = (\<lambda>features_dict. Inr v)"

definition positive :: "string \<Rightarrow> (int, string) FilterFn" where
  "positive n = (\<lambda>features_dict. case features_dict n of
                                      None \<Rightarrow> Inl (''no '' @ n)
                                    | Some v \<Rightarrow> Inr (0 < v))"



definition parserX :: "(string, nat) ParserBuilder" where
  "parserX = \<lparr>features = [(''a'', 1)], name_dict = [(''a'', [''x''])]\<rparr>"

definition parserS :: "(string \<times> bool, nat) ParserBuilder" where
  "parserS = \<lparr>features = [((''a'', True), 1)], name_dict = [((''a'', True), [''x''])]\<rparr>"



section \<open>Facts about the list operations\<close>

lemma indices_of_Nil_iff: "indices_of name fns = [] \<longleftrightarrow> name \<notin> set (map fn_name fns)"
proof -
  have "indices_of name fns = [] \<longleftrightarrow> (\<forall>i<length fns. fn_name (fns ! i) \<noteq> name)"
    by (auto simp: indices_of_def filter_empty_conv)
  also have "\<dots> \<longleftrightarrow> (\<forall>fd\<in>set fns. fn_name fd \<noteq> name)"
    by (simp add: all_set_conv_all_nth)
  finally show ?thesis by auto
qed

lemma filter_upt_Cons:
  assumes "filter P [0..<n] = i # is"
  shows "i < n \<and> P i \<and> (\<forall>j<i. \<not> P j)"
proof -
  have "i \<in> set (filter P [0..<n])" using assms by simp
  then have 1: "i < n \<and> P i" by simp
  have "sorted (filter P [0..<n])" by (rule sorted_wrt_filter) simp
  then have 2: "\<forall>k \<in> set is. i \<le> k" using assms by simp
  have "\<not> P j" if "j < i" for j
  proof
    assume "P j"
    then have "j \<in> set (filter P [0..<n])" using 1 that by simp
    then have "j = i \<or> j \<in> set is" using assms by simp
    with 2 that show False by auto
  qed
  with 1 show ?thesis by blast
qed

lemma indices_of_Cons:
  "indices_of name fns = i # is \<Longrightarrow>
     i < length fns \<and> fn_name (fns ! i) = name \<and> (\<forall>j<i. fn_name (fns ! j) \<noteq> name)"
  unfolding indices_of_def by (drule filter_upt_Cons) simp

lemma str_0: "str 0 = ''0''"
  by (simp add: str.simps digit_def)

lemma builder0_simps:
  "list_objs builder0 = (\<lambda>a. [])" "next_addr builder0 = 1" "fns_list builder0 = 0"
  "fn_idx builder0 = 0"
  by (simp_all add: builder0_def init_def world0_def fun_eq_iff)

lemma builderA_simps:
  "list_objs builderA 0 = [\<lparr>fn_name = ''A'', fn = double, feature_name = Some ''n'', stateful = True\<rparr>]"
  "next_addr builderA = 1" "fns_list builderA = 0" "fn_idx builderA = 0"
  by (simp_all add: builderA_def add_fn_def builder0_simps)

lemma builderABC_simps:
  "list_objs builderABC 0 =
     [\<lparr>fn_name = ''A'', fn = double, feature_name = Some ''n'', stateful = False\<rparr>,
      \<lparr>fn_name = ''B'', fn = add_one, feature_name = Some ''n'', stateful = False\<rparr>,
      \<lparr>fn_name = ''C'', fn = double, feature_name = None, stateful = True\<rparr>]"
  "next_addr builderABC = 1" "fns_list builderABC = 0" "fn_idx builderABC = 0"
  by (simp_all add: builderABC_def do_calls_def appends_def add_fn_def builder0_simps)

section \<open>Failed and successful calls of the builder\<close>

text \<open>
  C6. \<^verbatim>\<open>add_fn\<close> with a \<^verbatim>\<open>fn_name\<close> that is already the name of a registered function
  raises the \<^verbatim>\<open>ValueError\<close> "is not unique" and changes nothing: the builder and the
  store after the call are the ones before it, so the summary has the same
  descriptions in the same order.
\<close>

theorem add_fn_duplicate_name_unchanged:
  "n \<in> set (map fn_name (get_summary s)) \<Longrightarrow>
   add_fn f feature_name' (Some n) stateful' add_before_fn_name s =
     (Inl (ValueError (''Given `fn_name` '' @ n @ '' is not unique.'')), s)"
  by (simp add: add_fn_def get_summary_def)

theorem add_fn_duplicate_name_unchanged_witness:
  "''A'' \<in> set (map fn_name (get_summary (snd (add_fn double None (Some ''A'') False None builder0)))) \<and>
   add_fn add_one (Some ''n'') (Some ''A'') True None
       (snd (add_fn double None (Some ''A'') False None builder0)) =
     (Inl (ValueError ''Given `fn_name` A is not unique.''),
      snd (add_fn double None (Some ''A'') False None builder0))"
  using add_fn_duplicate_name_unchanged
    [of "''A''" "snd (add_fn double None (Some ''A'') False None builder0)"
        add_one "Some ''n''" True None]
  by (simp add: add_fn_def get_summary_def builder0_simps)

text \<open>
  C8. \<^verbatim>\<open>replace_fn\<close> on a name that no registered function has raises the
  \<^verbatim>\<open>ValueError\<close> "does not exist" and changes nothing. On a name that is registered it
  succeeds, the summary keeps its length, and at the first position \<open>i\<close> with that name
  the description has the new function and the old name, feature name and stateful flag;
  every other description is the one that was there.
\<close>

theorem replace_fn_frame:
  "(name \<notin> set (map fn_name (get_summary s)) \<longrightarrow>
      replace_fn name f s =
        (Inl (ValueError (''Given `fn_name` '' @ name @ '' does not exist.'')), s)) \<and>
   (name \<in> set (map fn_name (get_summary s)) \<longrightarrow>
      fst (replace_fn name f s) = Inr () \<and>
      length (get_summary (snd (replace_fn name f s))) = length (get_summary s) \<and>
      (\<exists>i<length (get_summary s).
         fn_name (get_summary s ! i) = name \<and>
         (\<forall>j<i. fn_name (get_summary s ! j) \<noteq> name) \<and>
         fn (get_summary (snd (replace_fn name f s)) ! i) = f \<and>
         fn_name (get_summary (snd (replace_fn name f s)) ! i) = name \<and>
         feature_name (get_summary (snd (replace_fn name f s)) ! i) =
           feature_name (get_summary s ! i) \<and>
         stateful (get_summary (snd (replace_fn name f s)) ! i) = stateful (get_summary s ! i) \<and>
         (\<forall>j<length (get_summary s). j \<noteq> i \<longrightarrow>
            get_summary (snd (replace_fn name f s)) ! j = get_summary s ! j)))"
proof (cases "indices_of name (get_summary s)")
  case Nil
  then show ?thesis
    using indices_of_Nil_iff [of name "get_summary s"]
    by (simp add: replace_fn_def get_summary_def)
next
  case (Cons i "is")
  from indices_of_Cons [OF Cons] have i: "i < length (get_summary s)"
    "fn_name (get_summary s ! i) = name" "\<forall>j<i. fn_name (get_summary s ! j) \<noteq> name"
    by simp_all
  have "name \<in> set (map fn_name (get_summary s))"
    using indices_of_Nil_iff [of name "get_summary s"] Cons by simp
  moreover have "fst (replace_fn name f s) = Inr ()"
    using Cons by (simp add: replace_fn_def get_summary_def Let_def)
  moreover have "get_summary (snd (replace_fn name f s)) =
      (get_summary s)[i := \<lparr>fn_name = fn_name (get_summary s ! i), fn = f,
         feature_name = feature_name (get_summary s ! i),
         stateful = stateful (get_summary s ! i)\<rparr>]"
    using Cons by (simp add: replace_fn_def get_summary_def Let_def)
  ultimately show ?thesis
    using i by (intro conjI impI exI [of _ i]) simp_all
qed

theorem replace_fn_frame_witness:
  "(''Z'' \<notin> set (map fn_name (get_summary builderA)) \<and>
    replace_fn ''Z'' add_one builderA =
      (Inl (ValueError ''Given `fn_name` Z does not exist.''), builderA)) \<and>
   (''A'' \<in> set (map fn_name (get_summary builderA)) \<and>
    fst (replace_fn ''A'' add_one builderA) = Inr () \<and>
    get_summary (snd (replace_fn ''A'' add_one builderA)) =
      [\<lparr>fn_name = ''A'', fn = add_one, feature_name = Some ''n'', stateful = True\<rparr>])"
  using replace_fn_frame [of "''Z''" builderA add_one]
    replace_fn_frame [of "''A''" builderA add_one]
  by (simp add: get_summary_def builderA_simps replace_fn_def indices_of_def)

section \<open>The order of the descriptions\<close>







text \<open>
  C7. The generated name is \<^verbatim>\<open>fn_\<close> and the counter, which only counts the calls without a
  name. After a function was registered under the supplied name \<open>fn_0\<close>, the first call
  without a name generates \<open>fn_0\<close> again and fails the uniqueness check; the counter
  stays incremented.
\<close>

theorem add_fn_generated_name_collides:
  "add_fn add_one None None False None
      (snd (add_fn double None (Some ''fn_0'') False None builder0)) =
     (Inl (ValueError ''Given `fn_name` fn_0 is not unique.''),
      (snd (add_fn double None (Some ''fn_0'') False None builder0))\<lparr>fn_idx := 1\<rparr>)"
  by (simp add: add_fn_def builder0_simps str_0)

section \<open>The state of one invocation\<close>

lemma run_fns_state_only:
  "dict_objs s a = dict_objs s' a' \<Longrightarrow>
   fst (run_fns a fds out s) = fst (run_fns a' fds out s')"
proof (induction fds arbitrary: out s s')
  case Nil
  then show ?case by simp
next
  case (Cons fd fds)
  show ?case
    using Cons.prems
    by (auto split: option.splits sum.splits prod.splits intro!: Cons.IH)
qed

lemma run_fns_list_objs: "list_objs (snd (run_fns a fds out s)) = list_objs s"
  by (induction fds arbitrary: out s) (auto split: option.splits sum.splits prod.splits)

section \<open>What a compiled function depends on\<close>

lemma add_fn_frame:
  "separate t s \<Longrightarrow>
   separate t (snd (add_fn f fe nm st before s)) \<and>
   list_objs (snd (add_fn f fe nm st before s)) t = list_objs s t"
  by (cases nm)
    (auto simp: separate_def add_fn_def Let_def split: option.splits list.splits)

lemma do_call_frame:
  "separate t s \<Longrightarrow>
   separate t (snd (do_call c s)) \<and> list_objs (snd (do_call c s)) t = list_objs s t"
proof (cases c)
  case (AddFn f fe nm st before)
  then show "separate t s \<Longrightarrow> ?thesis" using add_fn_frame [of t s f fe nm st before] by simp
next
  case Reset
  then show "separate t s \<Longrightarrow> ?thesis" by (auto simp: separate_def reset_def)
next
  case (RemoveFn name)
  then show "separate t s \<Longrightarrow> ?thesis" by (auto simp: separate_def remove_fn_def)
next
  case (ReplaceFn name f)
  then show "separate t s \<Longrightarrow> ?thesis"
    by (auto simp: separate_def replace_fn_def Let_def split: list.splits)
qed

lemma do_calls_frame:
  "separate t s \<Longrightarrow>
   separate t (do_calls cs s) \<and> list_objs (do_calls cs s) t = list_objs s t"
proof (induction cs arbitrary: s)
  case Nil
  then show ?case by (simp add: do_calls_def)
next
  case (Cons c cs)
  from do_call_frame [OF Cons.prems, of c]
  have 1: "separate t (snd (do_call c s))" and 2: "list_objs (snd (do_call c s)) t = list_objs s t"
    by simp_all
  from Cons.IH [OF 1] 2 show ?case by (simp add: do_calls_def)
qed

lemma process_fn_tuple_only:
  "list_objs s t = list_objs s' t' \<Longrightarrow> fst (process_fn t x s) = fst (process_fn t' x s')"
  by (simp add: process_fn_def Let_def run_fns_state_only)

lemma build_separate:
  "fns_list s < next_addr s \<Longrightarrow> separate (fst (build s)) (snd (build s))"
  by (simp add: build_def separate_def)

lemma build_snapshot: "list_objs (snd (build s)) (fst (build s)) = get_summary s"
  by (simp add: build_def get_summary_def)

text \<open>
  C1. \<^verbatim>\<open>build\<close> copies the descriptions into a tuple of its own, so the compiled function
  is determined by the registry at the time of the call: whatever sequence \<open>cs\<close> of
  \<^verbatim>\<open>add_fn\<close>, \<^verbatim>\<open>reset\<close>, \<^verbatim>\<open>remove_fn\<close> and \<^verbatim>\<open>replace_fn\<close> calls the builder receives
  afterwards, the function returns on every input \<open>x\<close> what it returned before them; and
  a function compiled from any builder with the same summary returns the same. The
  hypothesis says that the builder's list is an allocated object, which \<^verbatim>\<open>__init__\<close>
  establishes and every call keeps (\<open>init_allocated\<close>, \<open>do_call_allocated\<close>).
\<close>

theorem build_captures_registry:
  assumes "fns_list s < next_addr s"
  shows "fst (process_fn (fst (build s)) x (do_calls cs (snd (build s)))) =
           fst (process_fn (fst (build s)) x (snd (build s))) \<and>
         (get_summary s' = get_summary s \<longrightarrow>
            fst (process_fn (fst (build s')) x (snd (build s'))) =
              fst (process_fn (fst (build s)) x (snd (build s))))"
proof -
  from do_calls_frame [OF build_separate [OF assms], of cs]
  have "list_objs (do_calls cs (snd (build s))) (fst (build s)) =
        list_objs (snd (build s)) (fst (build s))"
    by simp
  then have "fst (process_fn (fst (build s)) x (do_calls cs (snd (build s)))) =
           fst (process_fn (fst (build s)) x (snd (build s)))"
    by (rule process_fn_tuple_only)
  moreover have "fst (process_fn (fst (build s')) x (snd (build s'))) =
              fst (process_fn (fst (build s)) x (snd (build s)))"
    if "get_summary s' = get_summary s"
    by (rule process_fn_tuple_only) (simp add: build_snapshot that)
  ultimately show ?thesis by simp
qed

theorem build_captures_registry_witness:
  "fns_list builderABC < next_addr builderABC \<and>
   get_summary (snd (build builderABC)) = get_summary builderABC \<and>
   fst (process_fn (fst (build builderABC)) [''n'' \<mapsto> 3]
          (do_calls [Reset, AddFn add_one (Some ''n'') None False None, RemoveFn ''A'',
                     ReplaceFn ''B'' double]
             (snd (build builderABC)))) =
     fst (process_fn (fst (build builderABC)) [''n'' \<mapsto> 3] (snd (build builderABC))) \<and>
   fst (process_fn (fst (build (snd (build builderABC)))) [''n'' \<mapsto> 3]
          (snd (build (snd (build builderABC))))) =
     fst (process_fn (fst (build builderABC)) [''n'' \<mapsto> 3] (snd (build builderABC)))"
  using build_captures_registry
    [of builderABC "[''n'' \<mapsto> 3]"
        "[Reset, AddFn add_one (Some ''n'') None False None, RemoveFn ''A'',
          ReplaceFn ''B'' double]"
        "snd (build builderABC)"]
  by (simp add: builderABC_simps get_summary_def build_def)

lemma init_allocated: "fns_list (init s) < next_addr (init s)"
  by (simp add: init_def)

lemma do_call_allocated:
  "fns_list s < next_addr s \<Longrightarrow> fns_list (snd (do_call c s)) < next_addr (snd (do_call c s))"
  by (cases c)
    (auto simp: add_fn_def reset_def remove_fn_def replace_fn_def Let_def
          split: option.splits list.splits if_splits prod.splits)

text \<open>
  C10. Every invocation of a compiled function allocates its own state dictionary
  and starts it empty, so what an earlier invocation left in the store is not seen: the
  result on \<open>x2\<close> after an invocation on \<open>x1\<close> is the result on \<open>x2\<close> without it, and
  more generally the result is the same whatever the state dictionaries of the store
  hold and wherever the next object is allocated.
\<close>

theorem process_fn_state_isolated:
  "fst (process_fn c x2 (snd (process_fn c x1 s))) = fst (process_fn c x2 s) \<and>
   fst (process_fn c x2 (s\<lparr>dict_objs := dicts, next_addr := a\<rparr>)) = fst (process_fn c x2 s)"
proof
  show "fst (process_fn c x2 (snd (process_fn c x1 s))) = fst (process_fn c x2 s)"
    by (simp add: process_fn_def Let_def run_fns_list_objs run_fns_state_only)
  show "fst (process_fn c x2 (s\<lparr>dict_objs := dicts, next_addr := a\<rparr>)) =
        fst (process_fn c x2 s)"
    by (rule process_fn_tuple_only) simp
qed

section \<open>Errors\<close>







section \<open>Filters\<close>

lemma filter_fns_add_filter_fns:
  "filter_fns (add_filter_fns regs b) phase =
     filter_fns b phase @ map fst (filter (\<lambda>r. snd r = phase) regs)"
  by (induction regs arbitrary: b) (auto simp: add_filter_fns_def add_filter_fn_def)

lemma filter_loop_Inr_iff:
  "filter_loop fs d keep = Inr v \<longleftrightarrow>
     (\<forall>f\<in>set fs. \<exists>b. f d = Inr b) \<and> v = (keep \<and> (\<forall>f\<in>set fs. f d = Inr True))"
proof (induction fs arbitrary: keep)
  case Nil
  then show ?case by auto
next
  case (Cons f fs)
  show ?case
  proof (cases "f d")
    case (Inl x)
    then show ?thesis by auto
  next
    case (Inr b)
    then show ?thesis by (auto simp: Cons.IH)
  qed
qed

text \<open>
  C4. The filter compiled for a phase returns \<^verbatim>\<open>True\<close> when the phase has no function;
  when every function of the phase returns, it returns their conjunction; the functions
  of a phase are the ones registered for it, in the order of registration; and two
  sequences of registrations with the same multiset give compiled filters that return
  the same boolean \<open>v\<close> on every input \<open>d\<close>.
\<close>

theorem filter_build_is_conjunction:
  "(filter_fns b phase = [] \<longrightarrow> FilterBuilder_build phase b d = Inr True) \<and>
   ((\<forall>f\<in>set (filter_fns b phase). \<exists>v. f d = Inr v) \<longrightarrow>
      FilterBuilder_build phase b d = Inr (\<forall>f\<in>set (filter_fns b phase). f d = Inr True)) \<and>
   filter_fns (add_filter_fns regs FilterBuilder_init) phase =
     map fst (filter (\<lambda>r. snd r = phase) regs) \<and>
   (mset regs = mset regs' \<longrightarrow>
      (FilterBuilder_build phase (add_filter_fns regs b) d = Inr v \<longleftrightarrow>
       FilterBuilder_build phase (add_filter_fns regs' b) d = Inr v))"
proof (intro conjI impI)
  assume "filter_fns b phase = []"
  then show "FilterBuilder_build phase b d = Inr True"
    by (simp add: FilterBuilder_build_def)
next
  assume "\<forall>f\<in>set (filter_fns b phase). \<exists>v. f d = Inr v"
  then show "FilterBuilder_build phase b d = Inr (\<forall>f\<in>set (filter_fns b phase). f d = Inr True)"
    by (simp add: FilterBuilder_build_def filter_loop_Inr_iff)
next
  show "filter_fns (add_filter_fns regs FilterBuilder_init) phase =
     map fst (filter (\<lambda>r. snd r = phase) regs)"
    by (simp add: filter_fns_add_filter_fns FilterBuilder_init_def)
next
  assume "mset regs = mset regs'"
  then have "set regs = set regs'" by (rule mset_eq_setD)
  then have "set (filter_fns (add_filter_fns regs b) phase) =
             set (filter_fns (add_filter_fns regs' b) phase)"
    by (simp add: filter_fns_add_filter_fns)
  then show "FilterBuilder_build phase (add_filter_fns regs b) d = Inr v \<longleftrightarrow>
       FilterBuilder_build phase (add_filter_fns regs' b) d = Inr v"
    by (simp add: FilterBuilder_build_def filter_loop_Inr_iff)
qed

theorem filter_build_is_conjunction_witness:
  "FilterBuilder_build DECODE FilterBuilder_init [''n'' \<mapsto> 3] = Inr True \<and>
   FilterBuilder_build DECODE
      (add_filter_fns [(always True, DECODE), (positive ''n'', READ), (always False, DECODE)]
         FilterBuilder_init) [''n'' \<mapsto> 3] = Inr False \<and>
   mset [(always True, DECODE), (positive ''n'', READ), (always False, DECODE)] =
     mset [(always False, DECODE), (always True, DECODE), (positive ''n'', READ)] \<and>
   FilterBuilder_build DECODE
      (add_filter_fns [(always False, DECODE), (always True, DECODE), (positive ''n'', READ)]
         FilterBuilder_init) [''n'' \<mapsto> 3] = Inr False"
  using filter_build_is_conjunction
    [of FilterBuilder_init DECODE "[''n'' \<mapsto> 3]"
        "[(always True, DECODE), (positive ''n'', READ), (always False, DECODE)]"
        "[(always False, DECODE), (always True, DECODE), (positive ''n'', READ)]"
        False]
    filter_build_is_conjunction
    [of "add_filter_fns [(always True, DECODE), (positive ''n'', READ), (always False, DECODE)]
         FilterBuilder_init" DECODE "[''n'' \<mapsto> 3]" "[]" "[]" False]
  by (simp add: FilterBuilder_init_def FilterBuilder_build_def add_filter_fns_def
      add_filter_fn_def always_def add_eq_conv_ex)

section \<open>The schema of the parser builders\<close>

lemma name_taken_iff: "name_taken n nd \<longleftrightarrow> n \<in> set (output_names nd)"
  by (auto simp: name_taken_def output_names_def list_ex_iff)

lemma update_absent: "map_of al k = None \<Longrightarrow> AList.update k v al = al @ [(k, v)]"
  by (induction al) (auto split: if_splits)

lemma update_last:
  "map_of al k = None \<Longrightarrow> AList.update k v (al @ [(k, w)]) = al @ [(k, v)]"
  by (induction al) (auto split: if_splits)

lemma append_name_absent: "map_of nd k = None \<Longrightarrow> append_name k n nd = nd @ [(k, [n])]"
  by (simp add: append_name_def update_absent update_last)

lemma append_name_present:
  "map_of nd k = Some l \<Longrightarrow> append_name k n nd = AList.update k (l @ [n]) nd"
  by (simp add: append_name_def)

lemma keys_update_present:
  "map_of al k = Some l \<Longrightarrow> map fst (AList.update k v al) = map fst al"
  by (induction al) (auto split: if_splits)

lemma mset_output_names_update:
  "map_of al k = Some l \<Longrightarrow>
   mset (output_names (AList.update k (l @ [n]) al)) = add_mset n (mset (output_names al))"
  by (induction al) (auto simp: output_names_def split: if_splits)

lemma mset_output_names_append_name:
  "mset (output_names (append_name k n nd)) = add_mset n (mset (output_names nd))"
proof (cases "map_of nd k")
  case None
  then show ?thesis
    by (simp add: append_name_absent output_names_def)
next
  case (Some l)
  then show ?thesis
    by (simp add: append_name_present mset_output_names_update)
qed

lemma distinct_output_names_append_name:
  "distinct (output_names (append_name k n nd)) \<longleftrightarrow>
     n \<notin> set (output_names nd) \<and> distinct (output_names nd)"
proof -
  have "mset (output_names (append_name k n nd)) = mset (n # output_names nd)"
    by (simp add: mset_output_names_append_name)
  then have "distinct (output_names (append_name k n nd)) = distinct (n # output_names nd)"
    by (rule mset_eq_imp_distinct_iff)
  then show ?thesis by simp
qed


lemma keys_append_name: "fst ` set (append_name k n nd) = insert k (fst ` set nd)"
proof (cases "map_of nd k")
  case None
  then show ?thesis by (simp add: append_name_absent)
next
  case (Some l)
  then have "k \<in> fst ` set nd"
    using map_of_SomeD [of nd k l] by force
  moreover have "fst ` set (append_name k n nd) = fst ` set nd"
    using keys_update_present [OF Some, of "l @ [n]"] Some
    by (simp add: append_name_present flip: set_map)
  ultimately show ?thesis by auto
qed

lemma distinct_keys_append_name:
  "distinct (map fst (append_name k n nd)) = distinct (map fst nd)"
proof (cases "map_of nd k")
  case None
  then show ?thesis by (auto simp: append_name_absent map_of_eq_None_iff)
next
  case (Some l)
  then show ?thesis by (simp add: append_name_present keys_update_present)
qed



text \<open>
  C2. \<^verbatim>\<open>parse_feature\<close> of either parser builder raises the \<^verbatim>\<open>ValueError\<close> "is not unique"
  when the output name (the feature name when none is given) is already among the
  registered output names, and otherwise the \<^verbatim>\<open>ValueError\<close> "Different feature_type" when
  its key has a different feature type; in both cases the builder after the call is the
  builder before it.
\<close>

theorem parse_feature_failure_unchanged:
  fixes b :: "(string, 't) ParserBuilder" and sb :: "(string \<times> bool, 't) ParserBuilder"
  shows
  "(or_name out a \<in> set (output_names (name_dict b)) \<longrightarrow>
      (Example_parse_feature a ft out b :: ('x exn + unit) \<times> _) =
        (Inl (ValueError (''Given output_name '' @ or_name out a @ '' is not unique.'')), b)) \<and>
   (or_name out a \<notin> set (output_names (name_dict b)) \<and>
    map_of (features b) a = Some t \<and> t \<noteq> ft \<longrightarrow>
      (Example_parse_feature a ft out b :: ('x exn + unit) \<times> _) =
        (Inl (ValueError (''Different `feature_type` given for the same feature '' @ a @ ''.'')),
         b)) \<and>
   (or_name out a \<in> set (output_names (name_dict sb)) \<longrightarrow>
      (SequenceExample_parse_feature a ft out c sb :: ('x exn + unit) \<times> _) =
        (Inl (ValueError (''Given `output_name` '' @ or_name out a @ '' is not unique.'')), sb)) \<and>
   (or_name out a \<notin> set (output_names (name_dict sb)) \<and>
    map_of (features sb) (a, c) = Some t \<and> t \<noteq> ft \<longrightarrow>
      (SequenceExample_parse_feature a ft out c sb :: ('x exn + unit) \<times> _) =
        (Inl (ValueError (''Different `feature_type` given for the same feature '' @ a
                          @ '' with `is_context` '' @ str_bool c @ ''.'')), sb))"
  by (simp add: Example_parse_feature_def SequenceExample_parse_feature_def Let_def
      name_taken_iff)

theorem parse_feature_failure_unchanged_witness:
  "(Example_parse_feature ''b'' 1 (Some ''x'') parserX :: (string exn + unit) \<times> _) =
     (Inl (ValueError ''Given output_name x is not unique.''), parserX) \<and>
   (Example_parse_feature ''a'' 2 None parserX :: (string exn + unit) \<times> _) =
     (Inl (ValueError ''Different `feature_type` given for the same feature a.''), parserX) \<and>
   (SequenceExample_parse_feature ''b'' 1 (Some ''x'') False parserS :: (string exn + unit) \<times> _) =
     (Inl (ValueError ''Given `output_name` x is not unique.''), parserS) \<and>
   (SequenceExample_parse_feature ''a'' 2 None True parserS :: (string exn + unit) \<times> _) =
     (Inl (ValueError
        ''Different `feature_type` given for the same feature a with `is_context` True.''),
      parserS)"
  using parse_feature_failure_unchanged
      [of "Some ''x''" "''b''" parserX 1 1 parserS False, where ?'x = string]
    parse_feature_failure_unchanged
      [of None "''a''" parserX 2 1 parserS True, where ?'x = string]
  by (simp add: or_name_def output_names_def parserX_def parserS_def str_bool_def)

section \<open>Fan-out\<close>



lemma schema_ok_registered:
  assumes "schema_ok b" and "n \<notin> set (output_names (name_dict b))"
  shows "schema_ok (b\<lparr>features := AList.update k ft (features b),
                       name_dict := append_name k n (name_dict b)\<rparr>)"
    and "map_of (features b) k = Some t \<Longrightarrow>
         schema_ok (b\<lparr>name_dict := append_name k n (name_dict b)\<rparr>)"
  using assms
  by (auto simp: schema_ok_def distinct_keys_append_name distinct_output_names_append_name
        keys_append_name dom_update)



lemma schema_ok_init: "schema_ok ParserBuilder_init"
  by (simp add: schema_ok_def ParserBuilder_init_def output_names_def)

lemma schema_ok_Example_parse_feature:
  "schema_ok b \<Longrightarrow> schema_ok (snd (Example_parse_feature a ft out b))"
  by (auto simp: Example_parse_feature_def Let_def name_taken_iff
      split: option.splits intro: schema_ok_registered)

lemma schema_ok_SequenceExample_parse_feature:
  "schema_ok b \<Longrightarrow> schema_ok (snd (SequenceExample_parse_feature a ft out c b))"
  by (auto simp: SequenceExample_parse_feature_def Let_def name_taken_iff
      split: option.splits intro: schema_ok_registered)








end
